theory Spec2Isabelle
  imports Complex_Main
begin

section \<open>JavaScript values\<close>

text \<open>
  The values that \<^verbatim>\<open>server.js\<close> stores and sends are JSON values: the request body
  is what \<^verbatim>\<open>express.json()\<close> parsed, the seed posts are object literals. An object is
  a finite map from property names to values; a property that is absent reads as
  \<^verbatim>\<open>undefined\<close>, which is \<open>None\<close> here. JSON numbers are finite, so a number is a
  real (there is no NaN and no infinity in a parsed body).
\<close>

datatype jsval =
    JNull
  | JBool bool
  | JNum real
  | JStr string
  | JArr "jsval list"
  | JObj "string \<rightharpoonup> jsval"

type_synonym obj = "string \<rightharpoonup> jsval"

text \<open>JavaScript truthiness, with \<open>None\<close> for \<^verbatim>\<open>undefined\<close>; \<^verbatim>\<open>a || b\<close>.\<close>

fun truthy :: "jsval option \<Rightarrow> bool" where
  "truthy None = False"
| "truthy (Some JNull) = False"
| "truthy (Some (JBool b)) = b"
| "truthy (Some (JNum r)) = (r \<noteq> 0)"
| "truthy (Some (JStr s)) = (s \<noteq> [])"
| "truthy (Some (JArr xs)) = True"
| "truthy (Some (JObj m)) = True"

definition js_or :: "jsval option \<Rightarrow> jsval \<Rightarrow> jsval" where
  "js_or a b = (case a of None \<Rightarrow> b | Some v \<Rightarrow> if truthy (Some v) then v else b)"

text \<open>
  The decimal text of an integer, as the template literal \<^verbatim>\<open>`post_${Date.now()}`\<close>
  renders the number (\<^verbatim>\<open>Date.now()\<close> is an integer of milliseconds, far below the
  size where JavaScript switches to exponent notation).
\<close>

definition digit :: "nat \<Rightarrow> char" where
  "digit d = ''0123456789'' ! d"

fun digits :: "nat \<Rightarrow> string" where
  "digits n = (if n < 10 then [digit n] else digits (n div 10) @ [digit (n mod 10)])"

declare digits.simps [simp del]

definition toString :: "int \<Rightarrow> string" where
  "toString i = (if i < 0 then ''-'' @ digits (nat (- i)) else digits (nat i))"

section \<open>Responses\<close>

text \<open>
  What a handler sends: the status given to \<^verbatim>\<open>res.status\<close> (200 when the handler sets
  none) and the body: \<^verbatim>\<open>res.json(v)\<close>, \<^verbatim>\<open>res.send()\<close> with nothing, or the contents of
  a file. The calls to the logger write to the console only and are left out.
\<close>

datatype body = Json jsval | No_body | File_contents string

record response =
  status :: jsval
  body :: body

section \<open>The post store\<close>

text \<open>The mock data storage \<^verbatim>\<open>blogPosts\<close> at start-up (lines 83 to 107).\<close>

definition blogPosts0 :: "obj list" where
  "blogPosts0 =
    [ [''id'' \<mapsto> JStr ''post_1678886400000'',
       ''title'' \<mapsto> JStr ''First Blog Post'',
       ''snippet'' \<mapsto> JStr ''A short introduction to my blog.'',
       ''fullContent'' \<mapsto> JStr ''This is the full content of the first blog post. It covers various topics related to web development and personal experiences.'',
       ''author'' \<mapsto> JStr ''Sourabh Madane'',
       ''date'' \<mapsto> JStr ''2023-03-15'',
       ''timestamp'' \<mapsto> JNum 1678886400000,
       ''images'' \<mapsto> JArr []],
      [''id'' \<mapsto> JStr ''post_1678972800000'',
       ''title'' \<mapsto> JStr ''Angular Standalone Components'',
       ''snippet'' \<mapsto> JStr ''Exploring the new features in Angular 17+.'',
       ''fullContent'' \<mapsto> JStr ''Dive deep into Angular 17's standalone components, a feature that simplifies the Angular development experience by removing the need for NgModules.'',
       ''author'' \<mapsto> JStr ''Sourabh Madane'',
       ''date'' \<mapsto> JStr ''2023-03-16'',
       ''timestamp'' \<mapsto> JNum 1678972800000,
       ''images'' \<mapsto> JArr
         [JObj [''url'' \<mapsto> JStr ''https://placehold.co/600x400/87CEFA/FFFFFF?text=Angular+17'',
                ''prompt'' \<mapsto> JStr ''Angular 17 logo concept''],
          JObj [''url'' \<mapsto> JStr ''https://placehold.co/600x400/D4BFFF/FFFFFF?text=Standalone'',
                ''prompt'' \<mapsto> JStr ''Code snippets for standalone components'']]] ]"

text \<open>
  \<^verbatim>\<open>Array.prototype.findIndex\<close>: the index of the first element that satisfies the
  test; the source's \<^verbatim>\<open>-1\<close> is \<open>None\<close>.
\<close>

fun findIndex :: "('a \<Rightarrow> bool) \<Rightarrow> 'a list \<Rightarrow> nat option" where
  "findIndex P [] = None"
| "findIndex P (x # xs) = (if P x then Some 0 else map_option Suc (findIndex P xs))"

text \<open>
  \<^verbatim>\<open>p.id === postId\<close>, where \<^verbatim>\<open>postId\<close> is the route parameter, always a string:
  strict equality holds only for a string property with the same text.
\<close>

definition id_is :: "string \<Rightarrow> obj \<Rightarrow> bool" where
  "id_is postId p = (p ''id'' = Some (JStr postId))"

text \<open>\<^verbatim>\<open>GET /api/posts\<close> (lines 110 to 113).\<close>

definition get_posts :: "obj list \<Rightarrow> obj list \<times> response" where
  "get_posts blogPosts = (blogPosts, \<lparr>status = JNum 200, body = Json (JArr (map JObj blogPosts))\<rparr>)"

text \<open>
  \<^verbatim>\<open>POST /api/posts\<close> (lines 116 to 125). The object literal reads the clock twice,
  once for the id and once for the timestamp, so the two readings are two arguments. The
  spread \<^verbatim>\<open>...req.body\<close> comes last in the literal: \<open>m ++ n\<close> takes \<open>n\<close>'s value
  wherever \<open>n\<close> has the key. \<open>req_body\<close> holds the own enumerable properties of
  \<^verbatim>\<open>req.body\<close> (none when there is no body).
\<close>

definition post_posts :: "int \<Rightarrow> int \<Rightarrow> obj \<Rightarrow> obj list \<Rightarrow> obj list \<times> response" where
  "post_posts now1 now2 req_body blogPosts =
    (let newPost = [''id'' \<mapsto> JStr (''post_'' @ toString now1),
                    ''timestamp'' \<mapsto> JNum (of_int now2)] ++ req_body
     in (blogPosts @ [newPost], \<lparr>status = JNum 201, body = Json (JObj newPost)\<rparr>))"

text \<open>\<^verbatim>\<open>PUT /api/posts/:id\<close> (lines 128 to 142).\<close>

definition put_post :: "string \<Rightarrow> obj \<Rightarrow> obj list \<Rightarrow> obj list \<times> response" where
  "put_post postId updatedPostData blogPosts =
    (case findIndex (id_is postId) blogPosts of
       Some index \<Rightarrow>
         (let blogPosts' =
                blogPosts[index := ((blogPosts ! index) ++ updatedPostData)(''id'' \<mapsto> JStr postId)]
          in (blogPosts', \<lparr>status = JNum 200, body = Json (JObj (blogPosts' ! index))\<rparr>))
     | None \<Rightarrow>
         (blogPosts,
          \<lparr>status = JNum 404, body = Json (JObj [''message'' \<mapsto> JStr ''Post not found''])\<rparr>))"

text \<open>\<^verbatim>\<open>DELETE /api/posts/:id\<close> (lines 145 to 157).\<close>

definition delete_post :: "string \<Rightarrow> obj list \<Rightarrow> obj list \<times> response" where
  "delete_post postId blogPosts =
    (let initialLength = length blogPosts;
         blogPosts' = filter (\<lambda>p. \<not> id_is postId p) blogPosts
     in if length blogPosts' < initialLength
        then (blogPosts', \<lparr>status = JNum 204, body = No_body\<rparr>)
        else (blogPosts',
              \<lparr>status = JNum 404, body = Json (JObj [''message'' \<mapsto> JStr ''Post not found''])\<rparr>))"

section \<open>Sequences of requests to the store\<close>

text \<open>
  The four store requests, each with what it reads from outside the store: a create
  carries its two clock readings and its body, an update and a delete the route parameter.
\<close>

datatype store_request =
    List_posts
  | Create int int obj
  | Update string obj
  | Delete string

fun handle :: "store_request \<Rightarrow> obj list \<Rightarrow> obj list \<times> response" where
  "handle List_posts blogPosts = get_posts blogPosts"
| "handle (Create now1 now2 req_body) blogPosts = post_posts now1 now2 req_body blogPosts"
| "handle (Update postId req_body) blogPosts = put_post postId req_body blogPosts"
| "handle (Delete postId) blogPosts = delete_post postId blogPosts"

text \<open>The store after a sequence of requests, handled one after the other.\<close>

fun run :: "store_request list \<Rightarrow> obj list \<Rightarrow> obj list" where
  "run [] blogPosts = blogPosts"
| "run (r # rs) blogPosts = run rs (fst (handle r blogPosts))"

text \<open>
  A request keeps the key \<open>k\<close> with the value \<open>v\<close> in the records whose id is
  \<open>i\<close> (\<open>None\<close> for \<^verbatim>\<open>undefined\<close>) when it does not delete that id and, if it
  updates that id, its body has no field \<open>k\<close> or has it with the value \<open>v\<close>.
\<close>

fun keeps :: "jsval option \<Rightarrow> string \<Rightarrow> jsval \<Rightarrow> store_request \<Rightarrow> bool" where
  "keeps i k v List_posts = True"
| "keeps i k v (Create now1 now2 req_body) = True"
| "keeps i k v (Update postId req_body) =
     (if i = Some (JStr postId) then req_body k = None \<or> req_body k = Some v else True)"
| "keeps i k v (Delete postId) = (i \<noteq> Some (JStr postId))"

section \<open>Runtime mode, error handler and routing\<close>

text \<open>
  What the application reads from outside itself while it answers one request:
  \<^item> \<^verbatim>\<open>process.env.NODE_ENV\<close>, a string or undefined;
  \<^item> the two readings of \<^verbatim>\<open>Date.now()\<close> a create makes;
  \<^item> Express's matching of a route pattern against a request path, and the value it
    binds to a named route parameter (\<^verbatim>\<open>req.params\<close>);
  \<^item> what \<^verbatim>\<open>express.static(angularDistPath)\<close> answers for a request path, \<open>None\<close>
    when no file matches and it passes the request on;
  \<^item> what \<^verbatim>\<open>res.sendFile\<close> finds for \<^verbatim>\<open>index.html\<close> in that directory: its
    contents, or the error it hands to \<^verbatim>\<open>next\<close>.
\<close>

record environment =
  process_env_NODE_ENV :: "string option"
  date_now_id :: int
  date_now_timestamp :: int
  path_matches :: "string \<Rightarrow> string \<Rightarrow> bool"
  req_params :: "string \<Rightarrow> string \<Rightarrow> string \<Rightarrow> string"
  serve_static :: "string \<Rightarrow> response option"
  index_html :: "obj + string"

record request =
  req_method :: string
  req_path :: string
  req_body :: obj

text \<open>
  Line 22: \<^verbatim>\<open>process.env.NODE_ENV || 'development'\<close>; the empty string is falsy.
\<close>

definition NODE_ENV :: "environment \<Rightarrow> string" where
  "NODE_ENV e =
    (case process_env_NODE_ENV e of
       None \<Rightarrow> ''development''
     | Some s \<Rightarrow> if s = [] then ''development'' else s)"

text \<open>
  The centralized error handling middleware (lines 181 to 194). \<open>err\<close> holds the
  properties of the error object: the handler reads \<^verbatim>\<open>err.status\<close> and passes the
  object itself to \<^verbatim>\<open>res.json\<close>.
\<close>

definition error_handler :: "environment \<Rightarrow> obj \<Rightarrow> response" where
  "error_handler e err =
    \<lparr>status = js_or (err ''status'') (JNum 500),
     body = Json (JObj
       [''message'' \<mapsto> JStr ''An unexpected error occurred. Please try again later.'',
        ''error'' \<mapsto> (if NODE_ENV e = ''development'' then JObj err else JObj Map.empty)])\<rparr>"

text \<open>
  Express hands a \<^verbatim>\<open>HEAD\<close> request to a route registered with \<^verbatim>\<open>app.get\<close> when the
  route has no handler for \<^verbatim>\<open>HEAD\<close> of its own.
\<close>

definition handles_get :: "string \<Rightarrow> bool" where
  "handles_get m = (m = ''GET'' \<or> m = ''HEAD'')"

text \<open>
  The four API routes in the order of their registration (lines 110 to 157); the first
  whose method and pattern match answers. \<open>None\<close>: no API route matches.
\<close>

definition api_routes :: "environment \<Rightarrow> request \<Rightarrow> obj list \<Rightarrow> (obj list \<times> response) option" where
  "api_routes e req blogPosts =
    (if handles_get (req_method req) \<and> path_matches e ''/api/posts'' (req_path req)
     then Some (get_posts blogPosts)
     else if req_method req = ''POST'' \<and> path_matches e ''/api/posts'' (req_path req)
     then Some (post_posts (date_now_id e) (date_now_timestamp e) (req_body req) blogPosts)
     else if req_method req = ''PUT'' \<and> path_matches e ''/api/posts/:id'' (req_path req)
     then Some (put_post (req_params e ''/api/posts/:id'' (req_path req) ''id'') (req_body req) blogPosts)
     else if req_method req = ''DELETE'' \<and> path_matches e ''/api/posts/:id'' (req_path req)
     then Some (delete_post (req_params e ''/api/posts/:id'' (req_path req) ''id'') blogPosts)
     else None)"

text \<open>
  The two layers registered in production mode (lines 170 to 176):
  \<^verbatim>\<open>express.static\<close>, which answers \<^verbatim>\<open>GET\<close> and \<^verbatim>\<open>HEAD\<close> requests for a file it
  finds and passes every other request on, then \<^verbatim>\<open>app.get('*')\<close>, whose pattern matches
  every path and whose handler sends \<^verbatim>\<open>index.html\<close>; an error of \<^verbatim>\<open>sendFile\<close> goes
  to the error handler. \<open>None\<close>: neither layer answers.
\<close>

definition angular_frontend :: "environment \<Rightarrow> request \<Rightarrow> response option" where
  "angular_frontend e req =
    (if handles_get (req_method req)
     then (case serve_static e (req_path req) of
             Some res \<Rightarrow> Some res
           | None \<Rightarrow>
               (case index_html e of
                  Inr contents \<Rightarrow> Some \<lparr>status = JNum 200, body = File_contents contents\<rparr>
                | Inl err \<Rightarrow> Some (error_handler e err)))
     else None)"

text \<open>
  The application's layers in the order of their registration: the API routes, then, only
  when \<^verbatim>\<open>NODE_ENV === 'production'\<close> (line 163), the static files and the fallback.
  \<open>None\<close>: no layer of the application answers (Express then sends its own 404).
  The request is one that the middleware registered before the routes (body parsers,
  helmet, cors, compression) has passed on; that middleware is not part of the model.
\<close>

definition app :: "environment \<Rightarrow> request \<Rightarrow> obj list \<Rightarrow> obj list \<times> response option" where
  "app e req blogPosts =
    (case api_routes e req blogPosts of
       Some (blogPosts', res) \<Rightarrow> (blogPosts', Some res)
     | None \<Rightarrow>
         if NODE_ENV e = ''production''
         then (blogPosts, angular_frontend e req)
         else (blogPosts, None))"

section \<open>Auxiliary facts\<close>

lemmas eval_defs = toString_def digits.simps digit_def

lemma findIndex_Some:
  "findIndex P xs = Some i \<Longrightarrow> i < length xs \<and> P (xs ! i) \<and> (\<forall>j<i. \<not> P (xs ! j))"
proof (induction xs arbitrary: i)
  case Nil
  then show ?case by simp
next
  case (Cons x xs)
  show ?case
  proof (cases "P x")
    case True
    with Cons.prems show ?thesis by simp
  next
    case False
    with Cons.prems obtain k where k: "findIndex P xs = Some k" "i = Suc k"
      by auto
    from Cons.IH[OF k(1)] False k(2) show ?thesis
      by (auto simp: less_Suc_eq_0_disj)
  qed
qed

lemma findIndex_None: "(findIndex P xs = None) = (\<forall>x\<in>set xs. \<not> P x)"
  by (induction xs) auto

lemma put_post_found:
  assumes "findIndex (id_is X) posts = Some i"
  shows "put_post X P posts =
    (posts[i := ((posts ! i) ++ P)(''id'' \<mapsto> JStr X)],
     \<lparr>status = JNum 200, body = Json (JObj (((posts ! i) ++ P)(''id'' \<mapsto> JStr X)))\<rparr>)"
  using assms findIndex_Some[OF assms] by (simp add: put_post_def Let_def)

lemma filter_single:
  "length (filter P xs) = 1 \<Longrightarrow>
     \<exists>i. findIndex P xs = Some i \<and> filter (\<lambda>x. \<not> P x) xs = take i xs @ drop (Suc i) xs"
proof (induction xs)
  case Nil
  then show ?case by simp
next
  case (Cons x xs)
  show ?case
  proof (cases "P x")
    case True
    with Cons.prems have "filter P xs = []" by simp
    then have "filter (\<lambda>x. \<not> P x) xs = xs"
      by (simp add: filter_empty_conv)
    with True show ?thesis by simp
  next
    case False
    with Cons.prems have "length (filter P xs) = 1" by simp
    from Cons.IH[OF this] obtain i where
      "findIndex P xs = Some i" "filter (\<lambda>x. \<not> P x) xs = take i xs @ drop (Suc i) xs"
      by blast
    with False show ?thesis by simp
  qed
qed

lemma length_filter_split:
  "length (filter (\<lambda>x. \<not> P x) xs) + length (filter P xs) = length xs"
  by (induction xs) auto

lemma delete_post_eq:
  "delete_post X posts =
     (if list_ex (id_is X) posts
      then (filter (\<lambda>p. \<not> id_is X p) posts, \<lparr>status = JNum 204, body = No_body\<rparr>)
      else (posts, \<lparr>status = JNum 404, body = Json (JObj [''message'' \<mapsto> JStr ''Post not found''])\<rparr>))"
proof (cases "list_ex (id_is X) posts")
  case True
  then have "length (filter (\<lambda>p. \<not> id_is X p) posts) < length posts"
    by (auto simp: list_ex_iff intro: length_filter_less)
  with True show ?thesis by (simp add: delete_post_def Let_def)
next
  case False
  then have "filter (\<lambda>p. \<not> id_is X p) posts = posts"
    by (simp add: list_ex_iff filter_id_conv)
  with False show ?thesis by (simp add: delete_post_def Let_def)
qed

text \<open>
  A request that keeps the key leaves in the store a record with the id and with the key
  at its value: the record itself, or the record an update made of it.
\<close>

lemma handle_keeps:
  assumes "\<exists>p\<in>set posts. p ''id'' = i \<and> p k = Some v" and "keeps i k v r"
  shows "\<exists>p\<in>set (fst (handle r posts)). p ''id'' = i \<and> p k = Some v"
proof -
  from assms(1) obtain m where m: "m < length posts" "(posts ! m) ''id'' = i" "(posts ! m) k = Some v"
    by (auto simp: in_set_conv_nth)
  show ?thesis
  proof (cases r)
    case List_posts
    with assms(1) show ?thesis by (simp add: get_posts_def)
  next
    case (Create n1 n2 b)
    with assms(1) show ?thesis by (auto simp add: post_posts_def Let_def)
  next
    case (Update X b)
    show ?thesis
    proof (cases "findIndex (id_is X) posts")
      case None
      with Update assms(1) show ?thesis by (simp add: put_post_def)
    next
      case (Some j)
      from findIndex_Some[OF Some] have j: "j < length posts" "(posts ! j) ''id'' = Some (JStr X)"
        by (simp_all add: id_is_def)
      define r' where "r' = ((posts ! j) ++ b)(''id'' \<mapsto> JStr X)"
      have upd: "fst (handle r posts) = posts[j := r']"
        using Update by (simp add: put_post_found[OF Some] r'_def)
      show ?thesis
      proof (cases "m = j")
        case True
        with m j have i: "i = Some (JStr X)" by simp
        with assms(2) Update have b: "b k = None \<or> b k = Some v" by simp
        have "r' ''id'' = i" by (simp add: r'_def i)
        moreover have "r' k = Some v"
        proof (cases "k = ''id''")
          case True
          with m i show ?thesis by (simp add: r'_def)
        next
          case False
          with b m \<open>m = j\<close> show ?thesis by (auto simp add: r'_def map_add_def)
        qed
        moreover have "r' \<in> set (posts[j := r'])"
          using j(1) by (simp add: set_update_memI)
        ultimately show ?thesis unfolding upd by blast
      next
        case False
        with m have "(posts[j := r']) ! m = posts ! m" "m < length (posts[j := r'])"
          by simp_all
        then have "posts ! m \<in> set (posts[j := r'])"
          by (metis nth_mem)
        with m show ?thesis unfolding upd by blast
      qed
    qed
  next
    case (Delete X)
    with assms(2) have "i \<noteq> Some (JStr X)" by simp
    with m have "\<not> id_is X (posts ! m)" by (simp add: id_is_def)
    with m have "posts ! m \<in> set (filter (\<lambda>p. \<not> id_is X p) posts)" by simp
    moreover have "fst (handle r posts) = filter (\<lambda>p. \<not> id_is X p) posts"
      using Delete by (simp add: delete_post_def Let_def)
    ultimately have "posts ! m \<in> set (fst (handle r posts))" by simp
    with m(2,3) show ?thesis by blast
  qed
qed

lemma run_keeps:
  "\<exists>p\<in>set posts. p ''id'' = i \<and> p k = Some v \<Longrightarrow> list_all (keeps i k v) rs \<Longrightarrow>
     \<exists>p\<in>set (run rs posts). p ''id'' = i \<and> p k = Some v"
proof (induction rs arbitrary: posts)
  case Nil
  then show ?case by simp
next
  case (Cons r rs)
  from Cons.prems have "\<exists>p\<in>set (fst (handle r posts)). p ''id'' = i \<and> p k = Some v"
    by (simp add: handle_keeps)
  with Cons show ?case by simp
qed

section \<open>Create\<close>

text \<open>
  C1, as the code has it. A create appends one record and returns that same record with
  status 201. The generated id is the record's id when the payload has no \<open>id\<close> field.
  The generated timestamp is a default: the record's timestamp is the payload's
  \<open>timestamp\<close> field when the payload has one, and the generated timestamp otherwise.
\<close>

theorem C1_create_generated_defaults:
  "\<exists>newPost. post_posts now1 now2 payload posts =
       (posts @ [newPost], \<lparr>status = JNum 201, body = Json (JObj newPost)\<rparr>)
     \<and> (payload ''id'' = None \<longrightarrow> newPost ''id'' = Some (JStr (''post_'' @ toString now1)))
     \<and> newPost ''timestamp'' =
         (case payload ''timestamp'' of None \<Rightarrow> Some (JNum (of_int now2)) | Some v \<Rightarrow> Some v)"
  by (simp add: post_posts_def Let_def map_add_def split: option.split)

text \<open>The spec's scenario: \<^verbatim>\<open>create({title: "T"})\<close> on the seed collection.\<close>

theorem C1_create_generated_defaults_witness:
  "\<exists>newPost. post_posts 1700000000000 1700000000001 [''title'' \<mapsto> JStr ''T''] blogPosts0 =
       (blogPosts0 @ [newPost], \<lparr>status = JNum 201, body = Json (JObj newPost)\<rparr>)
     \<and> newPost ''id'' = Some (JStr ''post_1700000000000'')
     \<and> newPost ''timestamp'' = Some (JNum 1700000000001)"
  using C1_create_generated_defaults
    [of 1700000000000 1700000000001 "[''title'' \<mapsto> JStr ''T'']" blogPosts0]
  by (simp add: eval_defs)

text \<open>
  C1 as stated fails: a payload with its own \<open>id\<close> and \<open>timestamp\<close> gets both back in
  the created record, and neither is the generated value.
\<close>

theorem C1_counterexample:
  "snd (post_posts 1700000000000 1700000000001
          [''title'' \<mapsto> JStr ''T'', ''id'' \<mapsto> JStr ''mine'', ''timestamp'' \<mapsto> JNum 5] blogPosts0)
     = \<lparr>status = JNum 201,
        body = Json (JObj [''title'' \<mapsto> JStr ''T'', ''id'' \<mapsto> JStr ''mine'', ''timestamp'' \<mapsto> JNum 5])\<rparr>
   \<and> JStr ''mine'' \<noteq> JStr (''post_'' @ toString 1700000000000)
   \<and> JNum 5 \<noteq> JNum (of_int 1700000000001)"
  by (auto simp add: post_posts_def Let_def eval_defs map_add_def fun_eq_iff)

text \<open>
  C2. Two creates whose clock readings fall in the same millisecond get the same id: after
  the two creates on the seed collection, the third and the fourth record both have the
  id \<open>post_1700000000000\<close>, so the second create's id was already in the collection.
\<close>

theorem C2_same_millisecond_collision:
  "map (\<lambda>p. p ''id'')
     (fst (post_posts 1700000000000 1700000000000 [''title'' \<mapsto> JStr ''B'']
        (fst (post_posts 1700000000000 1700000000000 [''title'' \<mapsto> JStr ''A''] blogPosts0))))
   = [Some (JStr ''post_1678886400000''), Some (JStr ''post_1678972800000''),
      Some (JStr ''post_1700000000000''), Some (JStr ''post_1700000000000'')]"
  by (simp add: post_posts_def Let_def eval_defs blogPosts0_def)

text \<open>
  C7, as the code has it. The created record's \<open>images\<close> field is the payload's
  \<open>images\<close> field, whatever it is: the record has no \<open>images\<close> field when the payload
  has none, and no shape is imposed on a value the payload supplies.
\<close>

theorem C7_create_images_from_payload:
  "\<exists>newPost. post_posts now1 now2 payload posts =
       (posts @ [newPost], \<lparr>status = JNum 201, body = Json (JObj newPost)\<rparr>)
     \<and> newPost ''images'' = payload ''images''"
  by (simp add: post_posts_def Let_def map_add_def split: option.split)

text \<open>
  C7 as stated fails: created from a payload without \<open>images\<close>, the record has an id, a
  timestamp and a title, and no \<open>images\<close> field at all (not the empty sequence).
\<close>

theorem C7_counterexample:
  "[''title'' \<mapsto> JStr ''T''] ''images'' = None
   \<and> last (fst (post_posts 1700000000000 1700000000001 [''title'' \<mapsto> JStr ''T''] blogPosts0)) ''images''
      = None
   \<and> snd (post_posts 1700000000000 1700000000001 [''title'' \<mapsto> JStr ''T''] blogPosts0)
      = \<lparr>status = JNum 201,
         body = Json (JObj [''id'' \<mapsto> JStr ''post_1700000000000'', ''timestamp'' \<mapsto> JNum 1700000000001,
                            ''title'' \<mapsto> JStr ''T''])\<rparr>"
  by (simp add: post_posts_def Let_def eval_defs)

text \<open>
  C10, as the code has it. Every key of the create payload, so in particular every key
  outside the Post schema, is in the new record with the payload's value. The record is
  the body of the create response and the last entry of a list that follows the create.
  Every later list has a record with the new record's id and with the key at the
  payload's value, whatever requests come in between (creates, lists, updates and deletes
  of other ids, updates of the record itself), as long as none of them deletes the
  record's id and none updates that id with another value for the key.
\<close>

theorem C10_create_keeps_key_until_overwritten:
  assumes "payload k = Some v"
  shows "\<exists>newPost. post_posts t1 t2 payload posts =
        (posts @ [newPost], \<lparr>status = JNum 201, body = Json (JObj newPost)\<rparr>)
     \<and> newPost k = Some v
     \<and> snd (get_posts (posts @ [newPost])) =
         \<lparr>status = JNum 200, body = Json (JArr (map JObj posts @ [JObj newPost]))\<rparr>
     \<and> (\<forall>rs. list_all (keeps (newPost ''id'') k v) rs \<longrightarrow>
          (\<exists>listed p. snd (get_posts (run rs (posts @ [newPost]))) =
               \<lparr>status = JNum 200, body = Json (JArr listed)\<rparr>
             \<and> JObj p \<in> set listed \<and> p ''id'' = newPost ''id'' \<and> p k = Some v))"
proof -
  define newPost where "newPost = [''id'' \<mapsto> JStr (''post_'' @ toString t1),
                    ''timestamp'' \<mapsto> JNum (of_int t2)] ++ payload"
  have a: "post_posts t1 t2 payload posts =
        (posts @ [newPost], \<lparr>status = JNum 201, body = Json (JObj newPost)\<rparr>)"
    by (simp add: post_posts_def Let_def newPost_def)
  have b: "newPost k = Some v"
    using assms by (simp add: newPost_def map_add_def)
  have c: "snd (get_posts (posts @ [newPost])) =
         \<lparr>status = JNum 200, body = Json (JArr (map JObj posts @ [JObj newPost]))\<rparr>"
    by (simp add: get_posts_def)
  have d: "\<exists>listed p. snd (get_posts (run rs (posts @ [newPost]))) =
               \<lparr>status = JNum 200, body = Json (JArr listed)\<rparr>
             \<and> JObj p \<in> set listed \<and> p ''id'' = newPost ''id'' \<and> p k = Some v"
    if "list_all (keeps (newPost ''id'') k v) rs" for rs
  proof -
    from b have "\<exists>p\<in>set (posts @ [newPost]). p ''id'' = newPost ''id'' \<and> p k = Some v"
      by simp
    from run_keeps[OF this that] obtain p where
      "p \<in> set (run rs (posts @ [newPost]))" "p ''id'' = newPost ''id''" "p k = Some v"
      by blast
    then show ?thesis
      by (auto simp add: get_posts_def)
  qed
  from a b c d show ?thesis by blast
qed

text \<open>
  A create with the extra key \<open>mood\<close>, followed by a list, an update of the record
  itself that changes its title, a delete and an update of other records and another
  create: a record with the new record's id and its \<open>mood\<close> is still listed.
\<close>

theorem C10_create_keeps_key_until_overwritten_witness:
  "\<exists>newPost. post_posts 1700000000000 1700000000001
                 [''title'' \<mapsto> JStr ''T'', ''mood'' \<mapsto> JStr ''calm''] blogPosts0 =
        (blogPosts0 @ [newPost], \<lparr>status = JNum 201, body = Json (JObj newPost)\<rparr>)
     \<and> newPost ''mood'' = Some (JStr ''calm'')
     \<and> (\<exists>listed p. snd (get_posts (run [List_posts,
                                      Update ''post_1700000000000'' [''title'' \<mapsto> JStr ''Edited''],
                                      Delete ''post_1678886400000'',
                                      Create 1700000000002 1700000000002 Map.empty,
                                      Update ''post_1678972800000'' [''mood'' \<mapsto> JStr ''grim'']]
                           (blogPosts0 @ [newPost]))) =
               \<lparr>status = JNum 200, body = Json (JArr listed)\<rparr>
             \<and> JObj p \<in> set listed
             \<and> p ''id'' = Some (JStr ''post_1700000000000'')
             \<and> p ''mood'' = Some (JStr ''calm''))"
proof -
  have k: "[''title'' \<mapsto> JStr ''T'', ''mood'' \<mapsto> JStr ''calm''] ''mood'' = Some (JStr ''calm'')"
    by simp
  from C10_create_keeps_key_until_overwritten
    [where payload = "[''title'' \<mapsto> JStr ''T'', ''mood'' \<mapsto> JStr ''calm'']" and k = "''mood''"
       and v = "JStr ''calm''" and ?t1.0 = 1700000000000 and ?t2.0 = 1700000000001
       and posts = blogPosts0, OF k]
  obtain newPost where n:
    "post_posts 1700000000000 1700000000001
        [''title'' \<mapsto> JStr ''T'', ''mood'' \<mapsto> JStr ''calm''] blogPosts0 =
        (blogPosts0 @ [newPost], \<lparr>status = JNum 201, body = Json (JObj newPost)\<rparr>)"
    "newPost ''mood'' = Some (JStr ''calm'')"
    "\<forall>rs. list_all (keeps (newPost ''id'') ''mood'' (JStr ''calm'')) rs \<longrightarrow>
          (\<exists>listed p. snd (get_posts (run rs (blogPosts0 @ [newPost]))) =
               \<lparr>status = JNum 200, body = Json (JArr listed)\<rparr>
             \<and> JObj p \<in> set listed \<and> p ''id'' = newPost ''id''
             \<and> p ''mood'' = Some (JStr ''calm''))"
    by blast
  from n(1) have id: "newPost ''id'' = Some (JStr ''post_1700000000000'')"
    by (auto simp add: post_posts_def Let_def eval_defs)
  then have "list_all (keeps (newPost ''id'') ''mood'' (JStr ''calm''))
      [List_posts, Update ''post_1700000000000'' [''title'' \<mapsto> JStr ''Edited''],
       Delete ''post_1678886400000'', Create 1700000000002 1700000000002 Map.empty,
       Update ''post_1678972800000'' [''mood'' \<mapsto> JStr ''grim'']]"
    by simp
  with n(3) id have "\<exists>listed p. snd (get_posts (run [List_posts,
                                      Update ''post_1700000000000'' [''title'' \<mapsto> JStr ''Edited''],
                                      Delete ''post_1678886400000'',
                                      Create 1700000000002 1700000000002 Map.empty,
                                      Update ''post_1678972800000'' [''mood'' \<mapsto> JStr ''grim'']]
                           (blogPosts0 @ [newPost]))) =
               \<lparr>status = JNum 200, body = Json (JArr listed)\<rparr>
             \<and> JObj p \<in> set listed
             \<and> p ''id'' = Some (JStr ''post_1700000000000'')
             \<and> p ''mood'' = Some (JStr ''calm'')"
    by metis
  with n(1,2) show ?thesis by blast
qed

text \<open>
  C10 as stated fails: after a create with the extra key \<open>mood\<close> on the seed
  collection and a delete of the new record's id, the list holds the two seed posts
  only, and neither has a \<open>mood\<close>.
\<close>

theorem C10_counterexample:
  "snd (post_posts 1700000000000 1700000000001
          [''title'' \<mapsto> JStr ''T'', ''mood'' \<mapsto> JStr ''calm''] blogPosts0)
     = \<lparr>status = JNum 201,
        body = Json (JObj [''id'' \<mapsto> JStr ''post_1700000000000'', ''timestamp'' \<mapsto> JNum 1700000000001,
                           ''title'' \<mapsto> JStr ''T'', ''mood'' \<mapsto> JStr ''calm''])\<rparr>
   \<and> snd (get_posts (run [Delete ''post_1700000000000'']
        (fst (post_posts 1700000000000 1700000000001
               [''title'' \<mapsto> JStr ''T'', ''mood'' \<mapsto> JStr ''calm''] blogPosts0))))
     = \<lparr>status = JNum 200, body = Json (JArr (map JObj blogPosts0))\<rparr>
   \<and> list_all (\<lambda>p. p ''mood'' = None) blogPosts0"
proof -
  have del: "filter (\<lambda>p. p ''id'' \<noteq> Some (JStr ''post_1700000000000'')) blogPosts0 = blogPosts0"
    by (simp add: blogPosts0_def)
  have "list_all (\<lambda>p. p ''mood'' = None) blogPosts0"
    by (simp add: blogPosts0_def)
  then show ?thesis
    by (simp add: post_posts_def delete_post_def get_posts_def Let_def eval_defs id_is_def del)
qed

section \<open>Update\<close>

text \<open>
  C3, as the code has it. An update of an existing record replaces it in place and
  returns the new record with status 200. The new record's id is the target id, which
  is the id the stored record had, whatever the payload holds. The timestamp is not
  pinned: it is the payload's \<open>timestamp\<close> field when the payload has one, and the
  stored timestamp otherwise.
\<close>

theorem C3_update_pins_id:
  assumes "findIndex (id_is X) posts = Some i"
  shows "\<exists>r. put_post X P posts = (posts[i := r], \<lparr>status = JNum 200, body = Json (JObj r)\<rparr>)
     \<and> (posts ! i) ''id'' = Some (JStr X)
     \<and> r ''id'' = Some (JStr X)
     \<and> r ''timestamp'' =
         (case P ''timestamp'' of None \<Rightarrow> (posts ! i) ''timestamp'' | Some v \<Rightarrow> Some v)"
  using findIndex_Some[OF assms]
  by (simp add: put_post_found[OF assms] map_add_def id_is_def split: option.split)

text \<open>An update of the first seed post whose payload carries another id and no timestamp.\<close>

theorem C3_update_pins_id_witness:
  "\<exists>r. put_post ''post_1678886400000''
          [''id'' \<mapsto> JStr ''other'', ''title'' \<mapsto> JStr ''Edited''] blogPosts0
        = (blogPosts0[0 := r], \<lparr>status = JNum 200, body = Json (JObj r)\<rparr>)
     \<and> r ''id'' = Some (JStr ''post_1678886400000'')
     \<and> r ''timestamp'' = Some (JNum 1678886400000)"
proof -
  have found: "findIndex (id_is ''post_1678886400000'') blogPosts0 = Some 0"
    by (simp add: blogPosts0_def id_is_def)
  have ts: "(blogPosts0 ! 0) ''timestamp'' = Some (JNum 1678886400000)"
    by (simp add: blogPosts0_def)
  show ?thesis
    using C3_update_pins_id
      [OF found, of "[''id'' \<mapsto> JStr ''other'', ''title'' \<mapsto> JStr ''Edited'']"] ts
    by auto
qed

text \<open>
  C3 as stated fails: the first seed post has the timestamp 1678886400000, and after an
  update whose payload is \<^verbatim>\<open>{timestamp: 0}\<close> its timestamp is 0.
\<close>

theorem C3_counterexample:
  "(blogPosts0 ! 0) ''timestamp'' = Some (JNum 1678886400000)
   \<and> (fst (put_post ''post_1678886400000'' [''timestamp'' \<mapsto> JNum 0] blogPosts0) ! 0) ''timestamp''
       = Some (JNum 0)"
  by (simp add: put_post_def Let_def blogPosts0_def id_is_def)

text \<open>
  C4. When \<open>X\<close> is the id of a record of the collection, found at position \<open>i\<close>, the
  update \<open>put_post X P\<close> puts a record \<open>r\<close> at that position and returns it with status
  200. The id of \<open>r\<close> is \<open>X\<close> for every payload, also one with another id. When the
  payload has no \<open>id\<close> field, every field of the payload is in \<open>r\<close> with the payload's
  value and every other field of \<open>r\<close> is as it was stored.
\<close>

theorem C4_update_merges:
  assumes "findIndex (id_is X) posts = Some i"
  shows "\<exists>r. put_post X P posts = (posts[i := r], \<lparr>status = JNum 200, body = Json (JObj r)\<rparr>)
     \<and> i < length posts
     \<and> r ''id'' = Some (JStr X)
     \<and> (P ''id'' = None \<longrightarrow>
          (\<forall>k. k \<in> dom P \<longrightarrow> r k = P k) \<and> (\<forall>k. k \<notin> dom P \<longrightarrow> r k = (posts ! i) k))"
  using findIndex_Some[OF assms]
  by (auto simp add: put_post_found[OF assms] map_add_def id_is_def split: option.split)

text \<open>
  The spec's scenario: \<^verbatim>\<open>update("post_1678886400000", {title: "Edited"})\<close> returns a
  record with that id, the new title, and the author and date it had.
\<close>

theorem C4_update_merges_witness:
  "\<exists>r. put_post ''post_1678886400000'' [''title'' \<mapsto> JStr ''Edited''] blogPosts0
        = (blogPosts0[0 := r], \<lparr>status = JNum 200, body = Json (JObj r)\<rparr>)
     \<and> r ''id'' = Some (JStr ''post_1678886400000'')
     \<and> r ''title'' = Some (JStr ''Edited'')
     \<and> r ''author'' = Some (JStr ''Sourabh Madane'')
     \<and> r ''date'' = Some (JStr ''2023-03-15'')"
proof -
  have found: "findIndex (id_is ''post_1678886400000'') blogPosts0 = Some 0"
    by (simp add: blogPosts0_def id_is_def)
  have old: "(blogPosts0 ! 0) ''author'' = Some (JStr ''Sourabh Madane'')"
    "(blogPosts0 ! 0) ''date'' = Some (JStr ''2023-03-15'')"
    by (simp_all add: blogPosts0_def)
  from C4_update_merges [OF found, of "[''title'' \<mapsto> JStr ''Edited'']"]
  obtain r where r: "put_post ''post_1678886400000'' [''title'' \<mapsto> JStr ''Edited''] blogPosts0
        = (blogPosts0[0 := r], \<lparr>status = JNum 200, body = Json (JObj r)\<rparr>)"
      "r ''id'' = Some (JStr ''post_1678886400000'')"
      "\<forall>k. k \<in> dom [''title'' \<mapsto> JStr ''Edited''] \<longrightarrow> r k = [''title'' \<mapsto> JStr ''Edited''] k"
      "\<forall>k. k \<notin> dom [''title'' \<mapsto> JStr ''Edited''] \<longrightarrow> r k = (blogPosts0 ! 0) k"
    by auto
  from r(3) have "r ''title'' = Some (JStr ''Edited'')" by simp
  moreover from r(4) old
  have "r ''author'' = Some (JStr ''Sourabh Madane'')" "r ''date'' = Some (JStr ''2023-03-15'')"
    by simp_all
  ultimately show ?thesis using r(1,2) by blast
qed

text \<open>
  C5. When no record of the collection has the target id, an update leaves the collection
  as it is and answers 404 with the message \<open>Post not found\<close>.
\<close>

theorem C5_update_missing:
  assumes "\<forall>p\<in>set posts. p ''id'' \<noteq> Some (JStr X)"
  shows "put_post X P posts =
     (posts, \<lparr>status = JNum 404, body = Json (JObj [''message'' \<mapsto> JStr ''Post not found''])\<rparr>)"
proof -
  from assms have "findIndex (id_is X) posts = None"
    by (simp add: findIndex_None id_is_def)
  then show ?thesis by (simp add: put_post_def)
qed

theorem C5_update_missing_witness:
  "put_post ''nonexistent'' [''title'' \<mapsto> JStr ''Edited''] blogPosts0 =
     (blogPosts0,
      \<lparr>status = JNum 404, body = Json (JObj [''message'' \<mapsto> JStr ''Post not found''])\<rparr>)"
proof -
  have "\<forall>p\<in>set blogPosts0. p ''id'' \<noteq> Some (JStr ''nonexistent'')"
    by (simp add: blogPosts0_def)
  then show ?thesis by (rule C5_update_missing)
qed

section \<open>Delete\<close>

text \<open>
  C6, as the code has it. When some record has the target id, a delete removes every
  record with that id, keeps the others in their order and answers 204 with no body; the
  collection shrinks by the number of records that had the id. When exactly one record
  has the id, that is the one record removed and the collection shrinks by exactly one.
  When no record has the id, the collection is unchanged and the answer is 404 with the
  message \<open>Post not found\<close>.
\<close>

theorem C6_delete_removes_matches:
  "delete_post X posts =
     (if list_ex (\<lambda>p. p ''id'' = Some (JStr X)) posts
      then (filter (\<lambda>p. p ''id'' \<noteq> Some (JStr X)) posts, \<lparr>status = JNum 204, body = No_body\<rparr>)
      else (posts,
            \<lparr>status = JNum 404, body = Json (JObj [''message'' \<mapsto> JStr ''Post not found''])\<rparr>))
   \<and> length (fst (delete_post X posts)) + length (filter (\<lambda>p. p ''id'' = Some (JStr X)) posts)
       = length posts
   \<and> (length (filter (\<lambda>p. p ''id'' = Some (JStr X)) posts) = 1 \<longrightarrow>
        (\<exists>i<length posts. (posts ! i) ''id'' = Some (JStr X)
           \<and> fst (delete_post X posts) = take i posts @ drop (Suc i) posts
           \<and> Suc (length (fst (delete_post X posts))) = length posts))"
proof -
  have idf: "id_is X = (\<lambda>p. p ''id'' = Some (JStr X))"
    by (simp add: id_is_def fun_eq_iff)
  have a: "delete_post X posts =
     (if list_ex (\<lambda>p. p ''id'' = Some (JStr X)) posts
      then (filter (\<lambda>p. p ''id'' \<noteq> Some (JStr X)) posts, \<lparr>status = JNum 204, body = No_body\<rparr>)
      else (posts,
            \<lparr>status = JNum 404, body = Json (JObj [''message'' \<mapsto> JStr ''Post not found''])\<rparr>))"
    using delete_post_eq[of X posts] by (simp add: idf)
  have fst_eq: "fst (delete_post X posts) = filter (\<lambda>p. p ''id'' \<noteq> Some (JStr X)) posts"
    by (simp add: delete_post_def Let_def idf)
  have b: "length (fst (delete_post X posts))
      + length (filter (\<lambda>p. p ''id'' = Some (JStr X)) posts) = length posts"
    unfolding fst_eq by (rule length_filter_split)
  have c: "\<exists>i<length posts. (posts ! i) ''id'' = Some (JStr X)
           \<and> fst (delete_post X posts) = take i posts @ drop (Suc i) posts
           \<and> Suc (length (fst (delete_post X posts))) = length posts"
    if one: "length (filter (\<lambda>p. p ''id'' = Some (JStr X)) posts) = 1"
  proof -
    from filter_single[OF one] obtain i where
      i: "findIndex (\<lambda>p. p ''id'' = Some (JStr X)) posts = Some i"
         "filter (\<lambda>p. p ''id'' \<noteq> Some (JStr X)) posts = take i posts @ drop (Suc i) posts"
      by blast
    from findIndex_Some[OF i(1)] have "i < length posts" "(posts ! i) ''id'' = Some (JStr X)"
      by simp_all
    moreover from b one have "Suc (length (fst (delete_post X posts))) = length posts"
      by simp
    ultimately show ?thesis using i(2) fst_eq by auto
  qed
  from a b c show ?thesis by blast
qed

text \<open>Deleting the first seed post leaves exactly the second.\<close>

theorem C6_delete_removes_matches_witness:
  "delete_post ''post_1678886400000'' blogPosts0
     = ([blogPosts0 ! 1], \<lparr>status = JNum 204, body = No_body\<rparr>)
   \<and> length (filter (\<lambda>p. p ''id'' = Some (JStr ''post_1678886400000'')) blogPosts0) = 1
   \<and> fst (delete_post ''post_1678886400000'' blogPosts0) = take 0 blogPosts0 @ drop (Suc 0) blogPosts0"
proof -
  have one: "length (filter (\<lambda>p. p ''id'' = Some (JStr ''post_1678886400000'')) blogPosts0) = 1"
    by (simp add: blogPosts0_def)
  have ex: "list_ex (\<lambda>p. p ''id'' = Some (JStr ''post_1678886400000'')) blogPosts0"
    by (simp add: blogPosts0_def)
  have f: "filter (\<lambda>p. p ''id'' \<noteq> Some (JStr ''post_1678886400000'')) blogPosts0 = [blogPosts0 ! 1]"
    by (simp add: blogPosts0_def)
  have d: "take 0 blogPosts0 @ drop (Suc 0) blogPosts0 = [blogPosts0 ! 1]"
    by (simp add: blogPosts0_def)
  show ?thesis
    using C6_delete_removes_matches [of "''post_1678886400000''" blogPosts0] one ex f d
    by simp
qed

text \<open>
  C6 as stated fails: after two creates in the same millisecond on the seed collection,
  the collection has four records, two of them with the id \<open>post_1700000000000\<close>; the
  delete of that id answers 204 and leaves two records, so the collection shrank by two.
\<close>

theorem C6_counterexample:
  "length (fst (post_posts 1700000000000 1700000000000 [''title'' \<mapsto> JStr ''B'']
        (fst (post_posts 1700000000000 1700000000000 [''title'' \<mapsto> JStr ''A''] blogPosts0)))) = 4
   \<and> length (fst (delete_post ''post_1700000000000''
       (fst (post_posts 1700000000000 1700000000000 [''title'' \<mapsto> JStr ''B'']
        (fst (post_posts 1700000000000 1700000000000 [''title'' \<mapsto> JStr ''A''] blogPosts0)))))) = 2
   \<and> snd (delete_post ''post_1700000000000''
       (fst (post_posts 1700000000000 1700000000000 [''title'' \<mapsto> JStr ''B'']
        (fst (post_posts 1700000000000 1700000000000 [''title'' \<mapsto> JStr ''A''] blogPosts0)))))
      = \<lparr>status = JNum 204, body = No_body\<rparr>"
  by (simp add: post_posts_def delete_post_def Let_def eval_defs blogPosts0_def id_is_def)

section \<open>Error handler\<close>

text \<open>
  C8, as the code has it. The error handler answers with a JSON object of exactly the
  two fields \<open>message\<close> and \<open>error\<close>. The message is the fixed text. The \<open>error\<close>
  field is the error object when the runtime mode is \<open>development\<close> (the environment
  variable is that word, empty or unset), and the empty object in every other mode,
  production among them. The status is the error's \<open>status\<close> property when that is a
  truthy value, and 500 when it is absent or falsy.
\<close>

theorem C8_error_response:
  "\<exists>b. error_handler e err =
       \<lparr>status = (case err ''status'' of
                    None \<Rightarrow> JNum 500
                  | Some s \<Rightarrow> if truthy (Some s) then s else JNum 500),
        body = Json (JObj b)\<rparr>
     \<and> dom b = {''message'', ''error''}
     \<and> b ''message'' = Some (JStr ''An unexpected error occurred. Please try again later.'')
     \<and> b ''error'' =
         Some (JObj (if process_env_NODE_ENV e \<in> {None, Some [], Some ''development''}
                     then err else Map.empty))"
  by (auto simp add: error_handler_def js_or_def NODE_ENV_def split: option.splits)

text \<open>
  C8 as stated fails: with \<^verbatim>\<open>NODE_ENV=test\<close> the mode is not production, and the
  response to an error with the properties \<open>status\<close> and \<open>type\<close> carries the empty
  object, not the error.
\<close>

theorem C8_counterexample:
  "NODE_ENV \<lparr>process_env_NODE_ENV = Some ''test'', date_now_id = 0, date_now_timestamp = 0,
              path_matches = (\<lambda>pattern p. pattern = p), req_params = (\<lambda>pattern p name. []),
              serve_static = (\<lambda>p. None), index_html = Inr ''<!doctype html>''\<rparr> \<noteq> ''production''
   \<and> error_handler \<lparr>process_env_NODE_ENV = Some ''test'', date_now_id = 0, date_now_timestamp = 0,
              path_matches = (\<lambda>pattern p. pattern = p), req_params = (\<lambda>pattern p name. []),
              serve_static = (\<lambda>p. None), index_html = Inr ''<!doctype html>''\<rparr>
        [''status'' \<mapsto> JNum 400, ''type'' \<mapsto> JStr ''entity.parse.failed'']
      = \<lparr>status = JNum 400,
         body = Json (JObj [''message'' \<mapsto> JStr ''An unexpected error occurred. Please try again later.'',
                            ''error'' \<mapsto> JObj Map.empty])\<rparr>
   \<and> (Map.empty :: obj) \<noteq> [''status'' \<mapsto> JNum 400, ''type'' \<mapsto> JStr ''entity.parse.failed'']"
proof -
  have "(Map.empty :: obj) ''status'' \<noteq>
      [''status'' \<mapsto> JNum 400, ''type'' \<mapsto> JStr ''entity.parse.failed''] ''status''"
    by simp
  then have "(Map.empty :: obj) \<noteq> [''status'' \<mapsto> JNum 400, ''type'' \<mapsto> JStr ''entity.parse.failed'']"
    by metis
  then show ?thesis
    by (simp add: error_handler_def NODE_ENV_def js_or_def)
qed

section \<open>The production fallback\<close>

text \<open>
  C9. In production mode, a \<open>GET\<close> request that no API route matches and for which
  the static layer finds no file is answered with status 200 and the contents of the
  index document (the document being there to send); the store is untouched. With any
  other value of the mode variable, or none, no layer of the application answers that
  request. And the fallback shadows no API route: whenever an API route matches a
  request, the application's answer is that route's answer.
\<close>

theorem C9_production_fallback:
  assumes "process_env_NODE_ENV e = Some ''production''"
    and "req_method req = ''GET''"
    and "api_routes e req posts = None"
    and "serve_static e (req_path req) = None"
    and "index_html e = Inr contents"
  shows "app e req posts = (posts, Some \<lparr>status = JNum 200, body = File_contents contents\<rparr>)
     \<and> (\<forall>mode. mode \<noteq> Some ''production'' \<longrightarrow>
          app (e\<lparr>process_env_NODE_ENV := mode\<rparr>) req posts = (posts, None))
     \<and> (\<forall>req' posts' res. api_routes e req' posts = Some (posts', res) \<longrightarrow>
          app e req' posts = (posts', Some res))"
proof -
  have fallback: "app e req posts = (posts, Some \<lparr>status = JNum 200, body = File_contents contents\<rparr>)"
    using assms by (simp add: app_def NODE_ENV_def angular_frontend_def handles_get_def)
  have only_production: "app (e\<lparr>process_env_NODE_ENV := mode\<rparr>) req posts = (posts, None)"
    if "mode \<noteq> Some ''production''" for mode
  proof -
    have "api_routes (e\<lparr>process_env_NODE_ENV := mode\<rparr>) req posts = api_routes e req posts"
      by (simp add: api_routes_def)
    moreover have "NODE_ENV (e\<lparr>process_env_NODE_ENV := mode\<rparr>) \<noteq> ''production''"
      using that by (cases mode) (auto simp add: NODE_ENV_def)
    ultimately show ?thesis
      using assms(3) by (simp add: app_def)
  qed
  have not_shadowed: "app e req' posts = (posts', Some res)"
    if "api_routes e req' posts = Some (posts', res)" for req' posts' res
    using that by (simp add: app_def)
  from fallback only_production not_shadowed show ?thesis by blast
qed

text \<open>
  The spec's scenario: in production mode \<^verbatim>\<open>GET /some/deep/link\<close> gets the index
  document with status 200; with the mode variable unset it gets no answer from the
  application; and in production mode \<^verbatim>\<open>GET /api/posts\<close> still lists the posts.
\<close>

theorem C9_production_fallback_witness:
  "app \<lparr>process_env_NODE_ENV = Some ''production'', date_now_id = 1700000000000, date_now_timestamp = 1700000000000,
        path_matches = (\<lambda>pattern p. if pattern = ''/api/posts'' then p = ''/api/posts''
                                      else take 11 p = ''/api/posts/'' \<and> 11 < length p),
        req_params = (\<lambda>pattern p name. drop 11 p),
        serve_static = (\<lambda>p. None), index_html = Inr ''<!doctype html>''\<rparr>
       \<lparr>req_method = ''GET'', req_path = ''/some/deep/link'', req_body = Map.empty\<rparr> blogPosts0
     = (blogPosts0, Some \<lparr>status = JNum 200, body = File_contents ''<!doctype html>''\<rparr>)
   \<and> app \<lparr>process_env_NODE_ENV = None, date_now_id = 1700000000000, date_now_timestamp = 1700000000000,
        path_matches = (\<lambda>pattern p. if pattern = ''/api/posts'' then p = ''/api/posts''
                                      else take 11 p = ''/api/posts/'' \<and> 11 < length p),
        req_params = (\<lambda>pattern p name. drop 11 p),
        serve_static = (\<lambda>p. None), index_html = Inr ''<!doctype html>''\<rparr>
       \<lparr>req_method = ''GET'', req_path = ''/some/deep/link'', req_body = Map.empty\<rparr> blogPosts0
     = (blogPosts0, None)
   \<and> app \<lparr>process_env_NODE_ENV = Some ''production'', date_now_id = 1700000000000, date_now_timestamp = 1700000000000,
        path_matches = (\<lambda>pattern p. if pattern = ''/api/posts'' then p = ''/api/posts''
                                      else take 11 p = ''/api/posts/'' \<and> 11 < length p),
        req_params = (\<lambda>pattern p name. drop 11 p),
        serve_static = (\<lambda>p. None), index_html = Inr ''<!doctype html>''\<rparr>
       \<lparr>req_method = ''GET'', req_path = ''/api/posts'', req_body = Map.empty\<rparr> blogPosts0
     = (blogPosts0, Some \<lparr>status = JNum 200, body = Json (JArr (map JObj blogPosts0))\<rparr>)"
proof -
  let ?e = "\<lparr>process_env_NODE_ENV = Some ''production'', date_now_id = 1700000000000, date_now_timestamp = 1700000000000,
        path_matches = (\<lambda>pattern p. if pattern = ''/api/posts'' then p = ''/api/posts''
                                      else take 11 p = ''/api/posts/'' \<and> 11 < length p),
        req_params = (\<lambda>pattern p name. drop 11 p),
        serve_static = (\<lambda>p. None), index_html = Inr ''<!doctype html>''\<rparr>"
  let ?deep = "\<lparr>req_method = ''GET'', req_path = ''/some/deep/link'', req_body = Map.empty\<rparr>"
  let ?list = "\<lparr>req_method = ''GET'', req_path = ''/api/posts'', req_body = Map.empty\<rparr>"
  have h1: "process_env_NODE_ENV ?e = Some ''production''" by simp
  have h2: "req_method ?deep = ''GET''" by simp
  have h3: "api_routes ?e ?deep blogPosts0 = None"
    by (simp add: api_routes_def handles_get_def)
  have h4: "serve_static ?e (req_path ?deep) = None" by simp
  have h5: "index_html ?e = Inr ''<!doctype html>''" by simp
  have api: "api_routes ?e ?list blogPosts0 =
      Some (blogPosts0, \<lparr>status = JNum 200, body = Json (JArr (map JObj blogPosts0))\<rparr>)"
    by (simp add: api_routes_def handles_get_def get_posts_def)
  have unset: "(None :: string option) \<noteq> Some ''production''" by simp
  note main = C9_production_fallback [OF h1 h2 h3 h4 h5]
  from main have a: "app ?e ?deep blogPosts0 =
      (blogPosts0, Some \<lparr>status = JNum 200, body = File_contents ''<!doctype html>''\<rparr>)"
    by blast
  from main unset have "app (?e\<lparr>process_env_NODE_ENV := None\<rparr>) ?deep blogPosts0 = (blogPosts0, None)"
    by blast
  then have b: "app \<lparr>process_env_NODE_ENV = None, date_now_id = 1700000000000, date_now_timestamp = 1700000000000,
        path_matches = (\<lambda>pattern p. if pattern = ''/api/posts'' then p = ''/api/posts''
                                      else take 11 p = ''/api/posts/'' \<and> 11 < length p),
        req_params = (\<lambda>pattern p name. drop 11 p),
        serve_static = (\<lambda>p. None), index_html = Inr ''<!doctype html>''\<rparr> ?deep blogPosts0 = (blogPosts0, None)"
    by simp
  from main api have c: "app ?e ?list blogPosts0 =
      (blogPosts0, Some \<lparr>status = JNum 200, body = Json (JArr (map JObj blogPosts0))\<rparr>)"
    by blast
  from a b c show ?thesis by blast
qed

end
